theory Spec2Isabelle
  imports Main "HOL-Library.Sublist"
begin

section \<open>Python values, exceptions and the outside world\<close>

text \<open>
  The client of \<^verbatim>\<open>opengen/tcp/optimizer_tcp_manager.py\<close> keeps the descriptor
  of the optimizer as a nested dictionary (what \<^verbatim>\<open>yaml.safe_load\<close> returns, or
  the literal built from the caller's \<^verbatim>\<open>ip\<close> and \<^verbatim>\<open>port\<close>).  Dictionaries are
  association lists, looked up with \<open>map_of\<close>.
\<close>

datatype pyval = PNone | PInt int | PStr string | PDict "(string \<times> pyval) list"

text \<open>
  Every \<^verbatim>\<open>raise\<close> of the source and every exception of a library call that the
  source lets through is a value of this type.  \<open>OSError n\<close> is the exception
  of \<^verbatim>\<open>socket.connect\<close> for the error number \<open>n\<close> (connection refused, timed
  out, host unreachable); \<open>LibraryError\<close> stands for what the external
  collaborators (the YAML loader, \<^verbatim>\<open>pkg_resources\<close>, \<^verbatim>\<open>float()\<close>, the
  \<^verbatim>\<open>SolverResponse\<close> constructor) raise.
\<close>

datatype error =
    Exception string
  | KeyError string
  | TypeError
  | ValueError
  | OverflowError
  | ZeroDivisionError
  | OSError int
  | UnicodeDecodeError
  | JSONDecodeError
  | LibraryError string

datatype level = Debug | Info | Warning

text \<open>
  What the program does to the outside world, in the order it does it.  A socket
  is named by the number it got when \<^verbatim>\<open>socket.socket\<close> created it.
\<close>

datatype event =
    Log level string "pyval list"
  | SocketCreate nat
  | Connect nat pyval pyval bool
  | SendAll nat string
  | ShutdownWR nat
  | Recv nat int string
  | Close nat
  | Sleep nat
  | ThreadStart "error + (string list \<times> string)"

record world =
  events :: "event list"
  next_sock :: nat

text \<open>
  The outcome of a connection attempt: the peer accepts, and is then a function
  from the bytes of the request to the segments of its reply (after which it
  closes its side), or the C-level \<^verbatim>\<open>connect\<close> fails with an error number.
\<close>

datatype conn_outcome = Accepted "string \<Rightarrow> string list" | Errno int

text \<open>
  The parts of the environment that the source reads but does not define:
  the file system with the YAML loader, the installed version of the package,
  the network (indexed by the number of the socket, which grows with every
  attempt and so stands for time), and the library functions \<^verbatim>\<open>str\<close>,
  \<^verbatim>\<open>float\<close>, \<^verbatim>\<open>bytes.decode\<close>, \<^verbatim>\<open>json.loads\<close> and the constructor of
  \<^verbatim>\<open>SolverResponse\<close>.
\<close>

record ('v, 'u, 'j, 'r) env =
  load_yaml :: "string \<Rightarrow> error + pyval"
  installed_version :: "error + string"
  net :: "nat \<Rightarrow> string \<Rightarrow> int \<Rightarrow> conn_outcome"
  to_str :: "'v \<Rightarrow> string"
  to_float :: "'v \<Rightarrow> error + 'v"
  bytes_decode :: "string \<Rightarrow> 'u option"
  json_loads :: "'u \<Rightarrow> 'j option"
  solver_response :: "'j \<Rightarrow> error + 'r"

subsection \<open>Sequencing with exceptions\<close>

type_synonym 'a io = "world \<Rightarrow> (error + 'a) \<times> world"

definition ret :: "'a \<Rightarrow> 'a io" where
  "ret x w = (Inr x, w)"

definition raise :: "error \<Rightarrow> 'a io" where
  "raise e w = (Inl e, w)"

definition lift :: "error + 'a \<Rightarrow> 'a io" where
  "lift r w = (r, w)"

definition bind :: "'a io \<Rightarrow> ('a \<Rightarrow> 'b io) \<Rightarrow> 'b io" where
  "bind m f w = (case m w of (Inl e, w') \<Rightarrow> (Inl e, w') | (Inr x, w') \<Rightarrow> f x w')"

definition emit :: "event \<Rightarrow> unit io" where
  "emit e w = (Inr (), w\<lparr>events := events w @ [e]\<rparr>)"

definition bind_sum :: "error + 'a \<Rightarrow> ('a \<Rightarrow> error + 'b) \<Rightarrow> error + 'b" where
  "bind_sum r f = (case r of Inl e \<Rightarrow> Inl e | Inr x \<Rightarrow> f x)"

subsection \<open>Dictionary lookup and paths\<close>

fun getitem :: "pyval \<Rightarrow> string \<Rightarrow> error + pyval" where
  "getitem (PDict kvs) k = (case map_of kvs k of None \<Rightarrow> Inl (KeyError k) | Some v \<Rightarrow> Inr v)"
| "getitem _ k = Inl TypeError"

text \<open>\<^verbatim>\<open>d[k1][k2]\<close>\<close>

definition getitem2 :: "pyval \<Rightarrow> string \<Rightarrow> string \<Rightarrow> error + pyval" where
  "getitem2 d k1 k2 = bind_sum (getitem d k1) (\<lambda>s. getitem s k2)"

text \<open>\<^verbatim>\<open>os.path.join\<close> of two components, on POSIX.\<close>

definition path_join :: "string \<Rightarrow> string \<Rightarrow> string" where
  "path_join a b =
     (if b \<noteq> [] \<and> hd b = CHR ''/'' then b
      else if a = [] \<or> last a = CHR ''/'' then a @ b
      else a @ ''/'' @ b)"

section \<open>The client\<close>

record client =
  optimizer_path :: "string option"
  optimizer_details_from_yml :: pyval

subsection \<open>Construction\<close>

definition load_tcp_details :: "('v, 'u, 'j, 'r) env \<Rightarrow> string \<Rightarrow> pyval io" where
  "load_tcp_details env path =
     bind (emit (Log Info ''loading TCP/IP details'' [])) (\<lambda>_.
     bind (lift (load_yaml env (path_join path ''optimizer.yml''))) (\<lambda>details.
     bind (lift (getitem2 details ''tcp'' ''ip'')) (\<lambda>ip.
     bind (lift (getitem2 details ''tcp'' ''port'')) (\<lambda>port.
     bind (emit (Log Info ''TCP/IP details: %s:%d'' [ip, port])) (\<lambda>_.
     ret details)))))"

text \<open>
  \<^verbatim>\<open>__init__(self, optimizer_path=None, ip=None, port=None)\<close>.  The version
  check after the three-way branch is outside it, so it runs in both modes.
\<close>

definition init ::
  "('v, 'u, 'j, 'r) env \<Rightarrow> string option \<Rightarrow> pyval \<Rightarrow> pyval \<Rightarrow> client io" where
  "init env path ip port =
     bind (case path of
             Some p \<Rightarrow> load_tcp_details env p
           | None \<Rightarrow>
               if ip \<noteq> PNone \<and> port \<noteq> PNone
               then ret (PDict [(''tcp'', PDict [(''ip'', ip), (''port'', port)])])
               else raise (Exception ''Illegal arguments'')) (\<lambda>details.
     bind (lift (getitem2 details ''build'' ''opengen_version'')) (\<lambda>opengen_version.
     bind (lift (installed_version env)) (\<lambda>current_opengen_version.
     bind (if PStr current_opengen_version \<noteq> opengen_version
           then bind (emit (Log Warning
                  ''the target optimizer was build with a different version of opengen (%s)''
                  [opengen_version])) (\<lambda>_.
                emit (Log Warning ''you are running opengen version %s''
                  [PStr current_opengen_version]))
           else ret ()) (\<lambda>_.
     ret \<lparr>optimizer_path = path, optimizer_details_from_yml = details\<rparr>))))"

subsection \<open>Sockets\<close>

text \<open>
  A connected socket object: its number, the peer behind it, what has been
  written to it, and the segments of the reply that have not been read yet.
\<close>

record sock =
  fd :: nat
  peer :: "string \<Rightarrow> string list"
  outbuf :: string
  inbuf :: "string list"

text \<open>\<^verbatim>\<open>socket.socket(socket.AF_INET, socket.SOCK_STREAM, 0)\<close>\<close>

definition socket_create :: "nat io" where
  "socket_create w =
     (Inr (next_sock w),
      w\<lparr>events := events w @ [SocketCreate (next_sock w)], next_sock := Suc (next_sock w)\<rparr>)"

text \<open>
  The address \<^verbatim>\<open>(ip, port)\<close> as the socket module reads it: a string and an
  integer in the range of a port, anything else raises before the network is
  touched.
\<close>

definition address :: "pyval \<Rightarrow> pyval \<Rightarrow> error + (string \<times> int)" where
  "address ip port =
     (case ip of
        PStr h \<Rightarrow>
          (case port of
             PInt n \<Rightarrow> if 0 \<le> n \<and> n \<le> 65535 then Inr (h, n) else Inl OverflowError
           | _ \<Rightarrow> Inl TypeError)
      | _ \<Rightarrow> Inl TypeError)"

text \<open>\<^verbatim>\<open>s.connect((ip, port))\<close>: raises when the connection is not made.\<close>

definition sock_connect :: "('v, 'u, 'j, 'r) env \<Rightarrow> nat \<Rightarrow> pyval \<Rightarrow> pyval \<Rightarrow> sock io" where
  "sock_connect env sid ip port =
     (case address ip port of
        Inl e \<Rightarrow> bind (emit (Connect sid ip port False)) (\<lambda>_. raise e)
      | Inr (h, n) \<Rightarrow>
          (case net env sid h n of
             Accepted p \<Rightarrow>
               bind (emit (Connect sid ip port True)) (\<lambda>_.
               ret \<lparr>fd = sid, peer = p, outbuf = [], inbuf = []\<rparr>)
           | Errno e \<Rightarrow> bind (emit (Connect sid ip port False)) (\<lambda>_. raise (OSError e))))"

text \<open>
  \<^verbatim>\<open>s.connect_ex((ip, port))\<close>: the error number of the C-level call is returned,
  0 when the connection is made; a bad address still raises.
\<close>

definition sock_connect_ex :: "('v, 'u, 'j, 'r) env \<Rightarrow> nat \<Rightarrow> pyval \<Rightarrow> pyval \<Rightarrow> int io" where
  "sock_connect_ex env sid ip port =
     (case address ip port of
        Inl e \<Rightarrow> bind (emit (Connect sid ip port False)) (\<lambda>_. raise e)
      | Inr (h, n) \<Rightarrow>
          (case net env sid h n of
             Accepted p \<Rightarrow> bind (emit (Connect sid ip port True)) (\<lambda>_. ret 0)
           | Errno e \<Rightarrow> bind (emit (Connect sid ip port False)) (\<lambda>_. ret e)))"

text \<open>\<^verbatim>\<open>str.encode()\<close>: UTF-8, for the code points below 256 that a \<open>char\<close> holds.\<close>

definition encode_char :: "char \<Rightarrow> string" where
  "encode_char c =
     (if (of_char c :: nat) < 128 then [c]
      else [char_of (192 + (of_char c :: nat) div 64), char_of (128 + (of_char c :: nat) mod 64)])"

definition encode :: "string \<Rightarrow> string" where
  "encode s = concat (map encode_char s)"

definition sendall :: "sock \<Rightarrow> string \<Rightarrow> sock io" where
  "sendall s data = bind (emit (SendAll (fd s) data)) (\<lambda>_. ret (s\<lparr>outbuf := outbuf s @ data\<rparr>))"

text \<open>
  \<^verbatim>\<open>s.shutdown(socket.SHUT_WR)\<close>: the peer sees the end of the request and its
  reply becomes what the socket will read.
\<close>

definition shutdown_wr :: "sock \<Rightarrow> sock io" where
  "shutdown_wr s = bind (emit (ShutdownWR (fd s))) (\<lambda>_. ret (s\<lparr>inbuf := peer s (outbuf s)\<rparr>))"

text \<open>
  What one \<^verbatim>\<open>recv(n)\<close> takes from the pending segments: at most \<open>n\<close> bytes of the
  first segment that is not empty, and the empty byte string once the peer has
  sent everything and closed.
\<close>

fun recv_bytes :: "nat \<Rightarrow> string list \<Rightarrow> string \<times> string list" where
  "recv_bytes n [] = ([], [])"
| "recv_bytes n (c # cs) =
     (if c = [] then recv_bytes n cs
      else (take n c, if drop n c = [] then cs else drop n c # cs))"

text \<open>
  \<^verbatim>\<open>s.recv(bufsize)\<close>.  The result is a Python value that the caller tests against
  \<^verbatim>\<open>None\<close>, hence the option; a socket always returns a byte string, empty at
  the end of the stream.  A negative size raises.
\<close>

definition recv :: "sock \<Rightarrow> int \<Rightarrow> (string option \<times> sock) io" where
  "recv s bufsize =
     (if bufsize < 0 then raise ValueError
      else bind (emit (Recv (fd s) bufsize (fst (recv_bytes (nat bufsize) (inbuf s))))) (\<lambda>_.
           ret (Some (fst (recv_bytes (nat bufsize) (inbuf s))),
                s\<lparr>inbuf := snd (recv_bytes (nat bufsize) (inbuf s))\<rparr>)))"

definition sock_close :: "sock \<Rightarrow> unit io" where
  "sock_close s = emit (Close (fd s))"

subsection \<open>Obtaining a connection\<close>

text \<open>
  Modelled from the spec: the decorator \<^verbatim>\<open>retry\<close> of the package \<^verbatim>\<open>retry\<close>,
  which is not under src/.  The spec: bounded retry, up to a fixed maximum number
  of attempts, a fixed delay between attempts, no exponential backoff, no jitter;
  exhausting the attempts fails with the error of the connection.  \<open>retry_more n\<close>
  makes one attempt and, when it raises, up to \<open>n\<close> more, each after a sleep of
  \<open>delay\<close> seconds; the exception of the last attempt is raised.
\<close>

primrec retry_more :: "nat \<Rightarrow> nat \<Rightarrow> 'a io \<Rightarrow> 'a io" where
  "retry_more 0 delay f = f"
| "retry_more (Suc n) delay f =
     (\<lambda>w. case f w of
        (Inr x, w') \<Rightarrow> (Inr x, w')
      | (Inl e, w') \<Rightarrow> bind (emit (Sleep delay)) (\<lambda>_. retry_more n delay f) w')"

definition retry :: "nat \<Rightarrow> nat \<Rightarrow> 'a io \<Rightarrow> 'a io" where
  "retry tries delay f = retry_more (tries - 1) delay f"

text \<open>The body of \<^verbatim>\<open>__obtain_socket_connection\<close>: one attempt.\<close>

definition connect_once :: "('v, 'u, 'j, 'r) env \<Rightarrow> client \<Rightarrow> sock io" where
  "connect_once env c =
     bind (lift (getitem2 (optimizer_details_from_yml c) ''tcp'' ''ip'')) (\<lambda>ip.
     bind (lift (getitem2 (optimizer_details_from_yml c) ''tcp'' ''port'')) (\<lambda>port.
     bind socket_create (\<lambda>sid.
     sock_connect env sid ip port)))"

text \<open>\<^verbatim>\<open>@retry(tries=10, delay=1)\<close> on \<^verbatim>\<open>__obtain_socket_connection\<close>.\<close>

definition obtain_socket_connection :: "('v, 'u, 'j, 'r) env \<Rightarrow> client \<Rightarrow> sock io" where
  "obtain_socket_connection env c = retry 10 1 (connect_once env c)"

subsection \<open>One transaction\<close>

text \<open>
  \<^verbatim>\<open>math.ceil(max_data_size/buffer_size)\<close>.  The quotient is a float in Python;
  for integers below \<open>2 ^ 53\<close> in absolute value its ceiling is the ceiling of the
  exact quotient, which is what is written here.  A zero divisor raises.
\<close>

definition ceil_div :: "int \<Rightarrow> int \<Rightarrow> error + int" where
  "ceil_div a b = (if b = 0 then Inl ZeroDivisionError else Inr (- ((- a) div b)))"

text \<open>
  The loop \<^verbatim>\<open>for _i in range(max_read_rounds)\<close>: one \<^verbatim>\<open>recv\<close> a round, leaving
  the loop when the chunk \<^verbatim>\<open>is None\<close>, appending it to \<^verbatim>\<open>data\<close> otherwise.
\<close>

fun read_rounds :: "nat \<Rightarrow> int \<Rightarrow> sock \<Rightarrow> string \<Rightarrow> (string \<times> sock) io" where
  "read_rounds 0 buffer_size s data = ret (data, s)"
| "read_rounds (Suc k) buffer_size s data =
     bind (recv s buffer_size) (\<lambda>(data_chunk, s').
       case data_chunk of
         None \<Rightarrow> ret (data, s')
       | Some chunk \<Rightarrow> read_rounds k buffer_size s' (data @ chunk))"

text \<open>
  \<^verbatim>\<open>__send_receive_data\<close> up to and including \<^verbatim>\<open>conn_socket.close()\<close>: the
  bytes that were read.  \<^verbatim>\<open>range\<close> of a number that is not positive is empty.
\<close>

definition send_receive_bytes ::
  "('v, 'u, 'j, 'r) env \<Rightarrow> client \<Rightarrow> string \<Rightarrow> int \<Rightarrow> int \<Rightarrow> string io" where
  "send_receive_bytes env c text_to_send buffer_size max_data_size =
     bind (obtain_socket_connection env c) (\<lambda>conn_socket.
     bind (sendall conn_socket (encode text_to_send)) (\<lambda>s1.
     bind (shutdown_wr s1) (\<lambda>s2.
     bind (lift (ceil_div max_data_size buffer_size)) (\<lambda>max_read_rounds.
     bind (read_rounds (nat max_read_rounds) buffer_size s2 []) (\<lambda>(data, s3).
     bind (sock_close s3) (\<lambda>_.
     ret data))))))"

text \<open>\<^verbatim>\<open>__send_receive_data\<close>: the transaction, then \<^verbatim>\<open>data.decode()\<close>.\<close>

definition send_receive_data ::
  "('v, 'u, 'j, 'r) env \<Rightarrow> client \<Rightarrow> string \<Rightarrow> int \<Rightarrow> int \<Rightarrow> 'u io" where
  "send_receive_data env c text_to_send buffer_size max_data_size =
     bind (send_receive_bytes env c text_to_send buffer_size max_data_size) (\<lambda>data.
     case bytes_decode env data of
       None \<Rightarrow> raise UnicodeDecodeError
     | Some u \<Rightarrow> ret u)"

subsection \<open>The public operations\<close>

definition ping :: "('v, 'u, 'j, 'r) env \<Rightarrow> client \<Rightarrow> 'j io" where
  \<open>ping env c =
     bind (send_receive_data env c ''{"Ping":1}'' 512 1048576) (\<lambda>data.
     case json_loads env data of
       None \<Rightarrow> raise JSONDecodeError
     | Some j \<Rightarrow> ret j)\<close>

definition kill :: "('v, 'u, 'j, 'r) env \<Rightarrow> client \<Rightarrow> unit io" where
  \<open>kill env c =
     bind (emit (Log Info ''Killing server'' [])) (\<lambda>_.
     bind (send_receive_data env c ''{"Kill":1}'' 512 1048576) (\<lambda>_.
     ret ()))\<close>

text \<open>\<^verbatim>\<open>','.join(...)\<close>\<close>

fun join :: "string \<Rightarrow> string list \<Rightarrow> string" where
  "join sep [] = []"
| "join sep [x] = x"
| "join sep (x # y # ys) = x @ sep @ join sep (y # ys)"

text \<open>
  The text that \<^verbatim>\<open>call\<close> builds in \<^verbatim>\<open>run_message\<close>, statement by statement.
  \<^verbatim>\<open>float(initial_penalty)\<close> is the only step that can raise.
\<close>

definition run_message ::
  "('v, 'u, 'j, 'r) env \<Rightarrow> 'v list \<Rightarrow> 'v list option \<Rightarrow> 'v list option \<Rightarrow> 'v option
     \<Rightarrow> error + string" where
  \<open>run_message env p initial_guess initial_y initial_penalty =
     (let m0 = ''{"Run" : {"parameter": ['';
          m1 = m0 @ join '','' (map (to_str env) p);
          m2 = m1 @ '']'';
          m3 = (case initial_guess of
                  None \<Rightarrow> m2
                | Some g \<Rightarrow> ((m2 @ '', "initial_guess": ['') @ join '','' (map (to_str env) g)) @ '']'');
          m4 = (case initial_y of
                  None \<Rightarrow> m3
                | Some y \<Rightarrow>
                    ((m3 @ '', "initial_lagrange_multipliers": ['') @ join '','' (map (to_str env) y))
                    @ '']'')
      in case initial_penalty of
           None \<Rightarrow> Inr (m4 @ ''}}'')
         | Some pen \<Rightarrow>
             (case to_float env pen of
                Inl e \<Rightarrow> Inl e
              | Inr f \<Rightarrow> Inr ((m4 @ '', "initial_penalty": '' @ to_str env f) @ ''}}'')))\<close>

definition call ::
  "('v, 'u, 'j, 'r) env \<Rightarrow> client \<Rightarrow> 'v list \<Rightarrow> 'v list option \<Rightarrow> 'v list option \<Rightarrow> 'v option
     \<Rightarrow> int \<Rightarrow> int \<Rightarrow> 'r io" where
  "call env c p initial_guess initial_y initial_penalty buffer_len max_data_size =
     bind (emit (Log Debug ''Sending request to TCP/IP server'' [])) (\<lambda>_.
     bind (lift (run_message env p initial_guess initial_y initial_penalty)) (\<lambda>run_message.
     bind (send_receive_data env c run_message buffer_len max_data_size) (\<lambda>data.
     case json_loads env data of
       None \<Rightarrow> raise JSONDecodeError
     | Some j \<Rightarrow> lift (solver_response env j))))"

subsection \<open>Starting the server\<close>

definition check_if_server_is_running :: "('v, 'u, 'j, 'r) env \<Rightarrow> client \<Rightarrow> bool io" where
  "check_if_server_is_running env c =
     bind (lift (getitem2 (optimizer_details_from_yml c) ''tcp'' ''ip'')) (\<lambda>ip.
     bind (lift (getitem2 (optimizer_details_from_yml c) ''tcp'' ''port'')) (\<lambda>port.
     bind socket_create (\<lambda>sid.
     bind (sock_connect_ex env sid ip port) (\<lambda>rc.
     ret (0 = rc)))))"

text \<open>
  What the detached thread of \<^verbatim>\<open>__threaded_start\<close> asks the operating system to
  run: the command and its working directory, or the exception that ends the
  thread before \<^verbatim>\<open>Popen\<close>.
\<close>

definition threaded_start :: "client \<Rightarrow> error + (string list \<times> string)" where
  "threaded_start c =
     bind_sum (getitem2 (optimizer_details_from_yml c) ''tcp'' ''ip'') (\<lambda>_.
     bind_sum (getitem2 (optimizer_details_from_yml c) ''tcp'' ''port'') (\<lambda>_.
     bind_sum (getitem2 (optimizer_details_from_yml c) ''build'' ''build_mode'') (\<lambda>mode.
     bind_sum (getitem2 (optimizer_details_from_yml c) ''meta'' ''optimizer_name'') (\<lambda>name.
     bind_sum (case name of PStr n \<Rightarrow> Inr (''tcp_iface_'' @ n) | _ \<Rightarrow> Inl TypeError) (\<lambda>tcp_dir_name.
     bind_sum (case optimizer_path c of None \<Rightarrow> Inl TypeError | Some path \<Rightarrow> Inr path) (\<lambda>path.
     Inr ([''cargo'', ''run'', ''-q''] @ (if mode = PStr ''release'' then [''--release''] else []),
          path_join path tcp_dir_name)))))))"

text \<open>Decimal digits, for \<^verbatim>\<open>"Port %d not available" % port\<close>.\<close>

fun show_nat :: "nat \<Rightarrow> string" where
  "show_nat n =
     (if n < 10 then [''0123456789'' ! n]
      else show_nat (n div 10) @ [''0123456789'' ! (n mod 10)])"

definition show_int :: "int \<Rightarrow> string" where
  "show_int i = (if i < 0 then CHR ''-'' # show_nat (nat (- i)) else show_nat (nat i))"

definition port_message :: "pyval \<Rightarrow> error + string" where
  "port_message port =
     (case port of
        PInt n \<Rightarrow> Inr (''Port '' @ show_int n @ '' not available'')
      | _ \<Rightarrow> Inl TypeError)"

definition start :: "('v, 'u, 'j, 'r) env \<Rightarrow> client \<Rightarrow> unit io" where
  "start env c =
     (if optimizer_path c = None
      then raise (Exception ''No optimizer path provided - cannot start a remote server'')
      else
        bind (check_if_server_is_running env c) (\<lambda>running.
        if running
        then bind (lift (getitem2 (optimizer_details_from_yml c) ''tcp'' ''port'')) (\<lambda>port.
             bind (lift (port_message port)) (\<lambda>msg.
             raise (Exception msg)))
        else
          bind (emit (Log Info ''Starting TCP/IP server thread'' [])) (\<lambda>_.
          bind (emit (ThreadStart (threaded_start c))) (\<lambda>_.
          bind (emit (Log Info ''Waiting for server to start'' [])) (\<lambda>_.
          bind (emit (Sleep 2)) (\<lambda>_.
          bind (ping env c) (\<lambda>_.
          ret ())))))))"

section \<open>Traces, read rounds and a concrete environment\<close>

subsection \<open>What the read loop receives\<close>

text \<open>
  The chunks that \<open>k\<close> successive calls of \<^verbatim>\<open>recv(n)\<close> return on a socket with
  the given pending segments, and the segments left after them.
\<close>

fun recv_chunks :: "nat \<Rightarrow> nat \<Rightarrow> string list \<Rightarrow> string list" where
  "recv_chunks 0 n pending = []"
| "recv_chunks (Suc k) n pending =
     fst (recv_bytes n pending) # recv_chunks k n (snd (recv_bytes n pending))"

fun recv_rest :: "nat \<Rightarrow> nat \<Rightarrow> string list \<Rightarrow> string list" where
  "recv_rest 0 n pending = pending"
| "recv_rest (Suc k) n pending = recv_rest k n (snd (recv_bytes n pending))"

text \<open>The number of rounds of the read loop, for a buffer size that is not zero.\<close>

definition rounds :: "int \<Rightarrow> int \<Rightarrow> nat" where
  "rounds max_data_size buffer_size = nat (- ((- max_data_size) div buffer_size))"

subsection \<open>Shapes of traces\<close>

text \<open>
  An event of a connection attempt that failed, on a socket numbered from \<open>lo\<close>
  up to but not including \<open>hi\<close>, or the one-second sleep between two attempts.
\<close>

fun failed_attempt :: "nat \<Rightarrow> nat \<Rightarrow> event \<Rightarrow> bool" where
  "failed_attempt lo hi (SocketCreate k) = (lo \<le> k \<and> k < hi)"
| "failed_attempt lo hi (Connect k ip port ok) = (\<not> ok \<and> lo \<le> k \<and> k < hi)"
| "failed_attempt lo hi (Sleep d) = (d = 1)"
| "failed_attempt lo hi _ = False"

fun recv_on :: "nat \<Rightarrow> event \<Rightarrow> bool" where
  "recv_on sid (Recv k n chunk) = (k = sid)"
| "recv_on sid _ = False"

text \<open>
  The events of one complete transaction: after attempts that failed on other
  sockets, a socket \<open>sid\<close> not seen before (\<open>lo\<close> is the first unused number) is
  created and connected, the payload is written, the write side is shut down,
  only then come the reads, and the socket is closed; \<open>hi\<close> is the first number
  unused afterwards.
\<close>

definition transaction :: "nat \<Rightarrow> string \<Rightarrow> event list \<Rightarrow> nat \<Rightarrow> bool" where
  "transaction lo payload evs hi \<longleftrightarrow>
     (\<exists>sid ip port pre rs.
        evs = pre @ [SocketCreate sid, Connect sid ip port True, SendAll sid payload, ShutdownWR sid]
                @ rs @ [Close sid]
        \<and> list_all (failed_attempt lo sid) pre \<and> list_all (recv_on sid) rs
        \<and> lo \<le> sid \<and> hi = Suc sid)"

text \<open>
  Nothing but the payload is written to any socket, and it is written to every
  socket that got connected.
\<close>

definition sends_only :: "string \<Rightarrow> event list \<Rightarrow> bool" where
  "sends_only payload evs \<longleftrightarrow>
     (\<forall>sid data. SendAll sid data \<in> set evs \<longrightarrow> data = payload)
     \<and> (\<forall>sid ip port. Connect sid ip port True \<in> set evs \<longrightarrow> SendAll sid payload \<in> set evs)"

text \<open>
  The events of \<open>Suc m\<close> attempts that all fail, on the sockets \<open>k\<close>, \<open>k + 1\<close>, ...,
  with a sleep after each but the last.
\<close>

fun failed_attempts :: "pyval \<Rightarrow> pyval \<Rightarrow> nat \<Rightarrow> nat \<Rightarrow> nat \<Rightarrow> event list" where
  "failed_attempts ip port delay k 0 = [SocketCreate k, Connect k ip port False]"
| "failed_attempts ip port delay k (Suc m) =
     [SocketCreate k, Connect k ip port False, Sleep delay] @ failed_attempts ip port delay (Suc k) m"

subsection \<open>Python floats and their text\<close>

text \<open>
  A Python float is a finite double or one of the three values that are not; \<^verbatim>\<open>str\<close>
  renders those as \<^verbatim>\<open>inf\<close>, \<^verbatim>\<open>-inf\<close> and \<^verbatim>\<open>nan\<close>.  The rendering of the
  finite ones (the shortest decimal text that reads back as the same double) is a
  parameter.
\<close>

datatype 'f pyfloat = Finite 'f | PosInf | NegInf | NaN

definition float_str :: "('f \<Rightarrow> string) \<Rightarrow> 'f pyfloat \<Rightarrow> string" where
  "float_str repr x =
     (case x of Finite f \<Rightarrow> repr f | PosInf \<Rightarrow> ''inf'' | NegInf \<Rightarrow> ''-inf'' | NaN \<Rightarrow> ''nan'')"

subsection \<open>A concrete environment\<close>

text \<open>
  One optimizer \<^verbatim>\<open>foo\<close> built in \<^verbatim>\<open>/opt/foo\<close>, whose server listens on
  127.0.0.1:8080 and answers every request with \<^verbatim>\<open>{"Pong":1}\<close> in one segment;
  on port 8081 a server whose answer is cut short, on port 8082 one that answers
  with the byte 0xFF, which no UTF-8 text contains; nothing listens elsewhere
  (error 111, connection refused).  The replies are ASCII apart from that byte, so
  decoding is the identity on ASCII bytes and fails otherwise.  Floats are the
  integers and the three non-finite values.
\<close>

definition demo_descriptor :: "int \<Rightarrow> pyval" where
  "demo_descriptor port =
     PDict [(''meta'', PDict [(''optimizer_name'', PStr ''foo'')]),
            (''tcp'', PDict [(''ip'', PStr ''127.0.0.1''), (''port'', PInt port)]),
            (''build'', PDict [(''opengen_version'', PStr ''0.6.2''), (''build_mode'', PStr ''debug'')])]"

definition demo_client :: "int \<Rightarrow> client" where
  "demo_client port =
     \<lparr>optimizer_path = Some ''/opt/foo'', optimizer_details_from_yml = demo_descriptor port\<rparr>"

definition demo_net :: "nat \<Rightarrow> string \<Rightarrow> int \<Rightarrow> conn_outcome" where
  \<open>demo_net sid h n =
     (if h = ''127.0.0.1'' \<and> n = 8080 then Accepted (\<lambda>req. [''{"Pong":1}''])
      else if h = ''127.0.0.1'' \<and> n = 8081 then Accepted (\<lambda>req. [''{"Pon''])
      else if h = ''127.0.0.1'' \<and> n = 8082 then Accepted (\<lambda>req. [[CHR 0xFF]])
      else Errno 111)\<close>

definition demo_decode :: "string \<Rightarrow> string option" where
  "demo_decode bs = (if list_all (\<lambda>c. (of_char c :: nat) < 128) bs then Some bs else None)"

definition demo_loads :: "string \<Rightarrow> pyval option" where
  \<open>demo_loads u = (if u = ''{"Pong":1}'' then Some (PDict [(''Pong'', PInt 1)]) else None)\<close>

definition demo_env :: "(int pyfloat, string, pyval, pyval) env" where
  "demo_env =
     \<lparr>load_yaml = (\<lambda>f. if f = ''/opt/foo/optimizer.yml'' then Inr (demo_descriptor 8080)
                        else Inl (LibraryError ''FileNotFoundError'')),
      installed_version = Inr ''0.6.3'',
      net = demo_net,
      to_str = float_str (\<lambda>i. show_int i @ ''.0''),
      to_float = Inr,
      bytes_decode = demo_decode,
      json_loads = demo_loads,
      solver_response = Inr\<rparr>"

definition w0 :: world where
  "w0 = \<lparr>events = [], next_sock = 0\<rparr>"

section \<open>Lemmas on the model\<close>

lemmas io_defs = bind_def ret_def raise_def lift_def emit_def

lemma read_rounds_eq:
  "0 \<le> n \<Longrightarrow> read_rounds k n s data w =
     (Inr (data @ concat (recv_chunks k (nat n) (inbuf s)), s\<lparr>inbuf := recv_rest k (nat n) (inbuf s)\<rparr>),
      w\<lparr>events := events w @ map (Recv (fd s) n) (recv_chunks k (nat n) (inbuf s))\<rparr>)"
proof (induction k arbitrary: s data w)
  case 0
  then show ?case by (simp add: ret_def)
next
  case (Suc k)
  show ?case using Suc.prems
    by (simp add: Suc.IH recv_def io_defs)
qed

lemma read_rounds_negative:
  "n < 0 \<Longrightarrow> read_rounds (Suc k) n s data w = (Inl ValueError, w)"
  by (simp add: recv_def io_defs)

lemma recv_chunks_Nil: "recv_chunks k n [] = replicate k []"
  by (induction k) simp_all

lemma failed_attempt_mono:
  "failed_attempt lo hi e \<Longrightarrow> lo' \<le> lo \<Longrightarrow> hi \<le> hi' \<Longrightarrow> failed_attempt lo' hi' e"
  by (cases e) auto

lemma list_all_failed_attempt_mono:
  "list_all (failed_attempt lo hi) es \<Longrightarrow> lo' \<le> lo \<Longrightarrow> hi \<le> hi' \<Longrightarrow> list_all (failed_attempt lo' hi') es"
  by (induction es) (auto intro: failed_attempt_mono)

lemma connect_once_cases:
  assumes "connect_once env c w = (r, w')"
  shows "(isl r \<and> w' = w)
     \<or> (\<exists>ip port. events w' = events w @ [SocketCreate (next_sock w), Connect (next_sock w) ip port (\<not> isl r)]
          \<and> next_sock w' = Suc (next_sock w)
          \<and> (\<forall>s. r = Inr s \<longrightarrow> fd s = next_sock w \<and> outbuf s = [] \<and> inbuf s = []))"
  using assms
  by (auto simp: connect_once_def socket_create_def sock_connect_def io_defs
      split: sum.splits conn_outcome.splits prod.splits)

lemma retry_more_ok:
  "retry_more n 1 (connect_once env c) w = (Inr s, w') \<Longrightarrow>
     \<exists>pre ip port. events w' = events w @ pre @ [SocketCreate (fd s), Connect (fd s) ip port True]
       \<and> list_all (failed_attempt (next_sock w) (fd s)) pre
       \<and> next_sock w \<le> fd s \<and> next_sock w' = Suc (fd s) \<and> outbuf s = [] \<and> inbuf s = []"
proof (induction n arbitrary: w)
  case 0
  then show ?case using connect_once_cases [of env c w "Inr s" w'] by auto
next
  case (Suc n)
  obtain r1 w1 where first: "connect_once env c w = (r1, w1)" by (cases "connect_once env c w")
  show ?case
  proof (cases r1)
    case (Inr s1)
    with Suc.prems first have "s1 = s" "w1 = w'" by simp_all
    with first Inr show ?thesis using connect_once_cases [of env c w "Inr s" w'] by auto
  next
    case (Inl e)
    let ?w2 = "w1\<lparr>events := events w1 @ [Sleep 1]\<rparr>"
    from Suc.prems first Inl have again: "retry_more n 1 (connect_once env c) ?w2 = (Inr s, w')"
      by (simp add: io_defs)
    from Suc.IH [OF again] obtain pre ip port where
      ev: "events w' = events ?w2 @ pre @ [SocketCreate (fd s), Connect (fd s) ip port True]"
      and pre: "list_all (failed_attempt (next_sock ?w2) (fd s)) pre"
      and rest: "next_sock ?w2 \<le> fd s" "next_sock w' = Suc (fd s)" "outbuf s = []" "inbuf s = []"
      by blast
    from connect_once_cases [OF first] Inl
    consider (none) "w1 = w"
      | (tried) ip' port' where
          "events w1 = events w @ [SocketCreate (next_sock w), Connect (next_sock w) ip' port' False]"
          "next_sock w1 = Suc (next_sock w)"
      by auto
    then show ?thesis
    proof cases
      case none
      with ev pre rest show ?thesis
        by (intro exI [of _ "Sleep 1 # pre"] exI [of _ ip] exI [of _ port]) simp
    next
      case tried
      have "list_all (failed_attempt (next_sock w) (fd s)) pre"
        using pre tried(2) by (auto intro: list_all_failed_attempt_mono)
      with ev rest tried show ?thesis
        by (intro exI [of _ "[SocketCreate (next_sock w), Connect (next_sock w) ip' port' False, Sleep 1] @ pre"]
              exI [of _ ip] exI [of _ port]) simp
    qed
  qed
qed

lemma retry_more_err:
  "retry_more n 1 (connect_once env c) w = (Inl e, w') \<Longrightarrow>
     \<exists>pre. events w' = events w @ pre
       \<and> list_all (failed_attempt (next_sock w) (next_sock w')) pre
       \<and> next_sock w \<le> next_sock w'"
proof (induction n arbitrary: w)
  case 0
  then show ?case using connect_once_cases [of env c w "Inl e" w'] by auto
next
  case (Suc n)
  obtain r1 w1 where first: "connect_once env c w = (r1, w1)" by (cases "connect_once env c w")
  show ?case
  proof (cases r1)
    case (Inr s1)
    with Suc.prems first show ?thesis by simp
  next
    case (Inl e1)
    let ?w2 = "w1\<lparr>events := events w1 @ [Sleep 1]\<rparr>"
    from Suc.prems first Inl have again: "retry_more n 1 (connect_once env c) ?w2 = (Inl e, w')"
      by (simp add: io_defs)
    from Suc.IH [OF again] obtain pre where
      ev: "events w' = events ?w2 @ pre"
      and pre: "list_all (failed_attempt (next_sock ?w2) (next_sock w')) pre"
      and rest: "next_sock ?w2 \<le> next_sock w'"
      by blast
    from connect_once_cases [OF first] Inl
    consider (none) "w1 = w"
      | (tried) ip' port' where
          "events w1 = events w @ [SocketCreate (next_sock w), Connect (next_sock w) ip' port' False]"
          "next_sock w1 = Suc (next_sock w)"
      by auto
    then show ?thesis
    proof cases
      case none
      with ev pre rest show ?thesis
        by (intro exI [of _ "Sleep 1 # pre"]) simp
    next
      case tried
      have "list_all (failed_attempt (next_sock w) (next_sock w')) pre"
        using pre tried(2) by (auto intro: list_all_failed_attempt_mono)
      with ev rest tried show ?thesis
        by (intro exI [of _ "[SocketCreate (next_sock w), Connect (next_sock w) ip' port' False, Sleep 1] @ pre"]) simp
    qed
  qed
qed

lemma failed_attempt_no_send:
  "list_all (failed_attempt lo hi) evs \<Longrightarrow> SendAll sid data \<notin> set evs"
  by (induction evs) auto

lemma failed_attempt_no_connection:
  "list_all (failed_attempt lo hi) evs \<Longrightarrow> Connect sid ip port True \<notin> set evs"
  by (induction evs) auto

lemma recv_on_no_send: "list_all (recv_on k) evs \<Longrightarrow> SendAll sid data \<notin> set evs"
  by (induction evs) auto

lemma recv_on_no_connection: "list_all (recv_on k) evs \<Longrightarrow> Connect sid ip port ok \<notin> set evs"
  by (induction evs) auto

lemma sends_only_failed: "list_all (failed_attempt lo hi) evs \<Longrightarrow> sends_only payload evs"
  by (auto simp: sends_only_def dest: failed_attempt_no_send failed_attempt_no_connection)

lemma sends_only_started:
  assumes "list_all (failed_attempt lo hi) pre" "list_all (recv_on sid) rs"
    "\<forall>e \<in> set post. e = Close sid"
  shows "sends_only payload
     (pre @ [SocketCreate sid, Connect sid ip port True, SendAll sid payload, ShutdownWR sid] @ rs @ post)"
  using assms
  by (auto simp: sends_only_def
      dest: failed_attempt_no_send failed_attempt_no_connection recv_on_no_send recv_on_no_connection)

lemma sends_only_transaction: "transaction lo payload evs hi \<Longrightarrow> sends_only payload evs"
  unfolding transaction_def using sends_only_started [where post = "[Close sid]" for sid]
  by fastforce

lemma read_rounds_shape:
  assumes "read_rounds k n s d w = (Inr (d', s'), w')"
  shows "\<exists>rs. events w' = events w @ rs \<and> list_all (recv_on (fd s)) rs
           \<and> fd s' = fd s \<and> next_sock w' = next_sock w"
proof (cases "0 \<le> n")
  case True
  from assms read_rounds_eq [OF True, of k s d w]
  have "events w' = events w @ map (Recv (fd s) n) (recv_chunks k (nat n) (inbuf s))"
    "fd s' = fd s" "next_sock w' = next_sock w" by auto
  moreover have "list_all (recv_on (fd s)) (map (Recv (fd s) n) cs)" for cs
    by (induction cs) simp_all
  ultimately show ?thesis by blast
next
  case False
  then have neg: "n < 0" by simp
  show ?thesis
  proof (cases k)
    case 0
    with assms show ?thesis by (simp add: ret_def)
  next
    case (Suc j)
    with assms read_rounds_negative [OF neg] show ?thesis by simp
  qed
qed

lemma send_receive_bytes_ok:
  assumes "send_receive_bytes env c req b m w = (Inr data, w')"
  shows "\<exists>evs. events w' = events w @ evs \<and> transaction (next_sock w) (encode req) evs (next_sock w')"
proof -
  obtain r1 w1 where conn: "obtain_socket_connection env c w = (r1, w1)"
    by (cases "obtain_socket_connection env c w")
  with assms obtain s where r1: "r1 = Inr s"
    by (cases r1) (auto simp: send_receive_bytes_def bind_def)
  from conn r1 have "retry_more 9 1 (connect_once env c) w = (Inr s, w1)"
    by (simp add: obtain_socket_connection_def retry_def)
  from retry_more_ok [OF this] obtain pre ip port where
    ev1: "events w1 = events w @ pre @ [SocketCreate (fd s), Connect (fd s) ip port True]"
    and pre: "list_all (failed_attempt (next_sock w) (fd s)) pre"
    and rest: "next_sock w \<le> fd s" "next_sock w1 = Suc (fd s)"
    by blast
  let ?s2 = "s\<lparr>outbuf := outbuf s @ encode req, inbuf := peer s (outbuf s @ encode req)\<rparr>"
  let ?w2 = "w1\<lparr>events := events w1 @ [SendAll (fd s) (encode req), ShutdownWR (fd s)]\<rparr>"
  from assms conn r1 obtain k where b: "b \<noteq> 0"
    and loop: "bind (read_rounds k b ?s2 []) (\<lambda>(data, s3). bind (sock_close s3) (\<lambda>_. ret data)) ?w2 = (Inr data, w')"
    by (auto simp: send_receive_bytes_def sendall_def shutdown_wr_def ceil_div_def io_defs
        split: if_splits)
  obtain r3 w3 where rr: "read_rounds k b ?s2 [] ?w2 = (r3, w3)"
    by (cases "read_rounds k b ?s2 [] ?w2")
  with loop obtain d3 s3 where r3: "r3 = Inr (d3, s3)"
    by (cases r3) (auto simp: bind_def)
  from read_rounds_shape [OF rr [unfolded r3]] obtain rs where
    ev3: "events w3 = events ?w2 @ rs" and rs: "list_all (recv_on (fd s)) rs"
    and fd3: "fd s3 = fd s" and ns3: "next_sock w3 = next_sock ?w2"
    by auto
  from loop rr r3 have w': "w' = w3\<lparr>events := events w3 @ [Close (fd s3)]\<rparr>"
    by (simp add: sock_close_def io_defs)
  have "events w' = events w @ (pre @ [SocketCreate (fd s), Connect (fd s) ip port True,
           SendAll (fd s) (encode req), ShutdownWR (fd s)] @ rs @ [Close (fd s)])"
    using w' ev3 ev1 fd3 by simp
  moreover have "next_sock w' = Suc (fd s)" using w' ns3 rest by simp
  ultimately show ?thesis
    using pre rs rest unfolding transaction_def by blast
qed

lemma send_receive_bytes_err:
  assumes "send_receive_bytes env c req b m w = (Inl e, w')"
  shows "\<exists>evs. events w' = events w @ evs \<and>
           (list_all (failed_attempt (next_sock w) (next_sock w')) evs
            \<or> (b \<le> 0 \<and> (\<exists>sid ip port pre. evs = pre @ [SocketCreate sid, Connect sid ip port True,
                    SendAll sid (encode req), ShutdownWR sid]
                  \<and> list_all (failed_attempt (next_sock w) sid) pre)))"
proof -
  obtain r1 w1 where conn: "obtain_socket_connection env c w = (r1, w1)"
    by (cases "obtain_socket_connection env c w")
  show ?thesis
  proof (cases r1)
    case (Inl e1)
    with assms conn have "e1 = e" "w1 = w'"
      by (auto simp: send_receive_bytes_def bind_def)
    with conn Inl have "retry_more 9 1 (connect_once env c) w = (Inl e, w')"
      by (simp add: obtain_socket_connection_def retry_def)
    from retry_more_err [OF this] show ?thesis by blast
  next
    case (Inr s)
    with conn have "retry_more 9 1 (connect_once env c) w = (Inr s, w1)"
      by (simp add: obtain_socket_connection_def retry_def)
    from retry_more_ok [OF this] obtain pre ip port where
      ev1: "events w1 = events w @ pre @ [SocketCreate (fd s), Connect (fd s) ip port True]"
      and pre: "list_all (failed_attempt (next_sock w) (fd s)) pre"
      by blast
    let ?s2 = "s\<lparr>outbuf := outbuf s @ encode req, inbuf := peer s (outbuf s @ encode req)\<rparr>"
    let ?w2 = "w1\<lparr>events := events w1 @ [SendAll (fd s) (encode req), ShutdownWR (fd s)]\<rparr>"
    have ev2: "events ?w2 = events w @ (pre @ [SocketCreate (fd s), Connect (fd s) ip port True,
        SendAll (fd s) (encode req), ShutdownWR (fd s)])"
      using ev1 by simp
    have aborted: ?thesis if "w' = ?w2" "b \<le> 0"
      using that ev2 pre by blast
    show ?thesis
    proof (cases "b = 0")
      case True
      with assms conn Inr have "w' = ?w2"
        by (simp add: send_receive_bytes_def sendall_def shutdown_wr_def ceil_div_def io_defs)
      with True show ?thesis by (intro aborted) simp_all
    next
      case False
      define k where "k = nat (- ((- m) div b))"
      from assms conn Inr False
      have loop: "bind (read_rounds k b ?s2 []) (\<lambda>(data, s3). bind (sock_close s3) (\<lambda>_. ret data)) ?w2 = (Inl e, w')"
        by (simp add: send_receive_bytes_def sendall_def shutdown_wr_def ceil_div_def io_defs k_def)
      have neg: "b < 0"
      proof (rule ccontr)
        assume "\<not> b < 0"
        then have "0 \<le> b" by simp
        from loop read_rounds_eq [OF this, of k ?s2 "[]" ?w2] show False
          by (simp add: sock_close_def io_defs)
      qed
      have "k \<noteq> 0"
      proof
        assume "k = 0"
        with loop show False by (simp add: sock_close_def io_defs)
      qed
      then obtain j where "k = Suc j" by (cases k) auto
      with loop read_rounds_negative [OF neg, of j ?s2 "[]" ?w2] have "w' = ?w2"
        by (simp add: bind_def)
      with neg show ?thesis by (intro aborted) simp_all
    qed
  qed
qed

lemma send_receive_bytes_sends_only:
  assumes "send_receive_bytes env c req b m w = (r, w')"
  shows "\<exists>evs. events w' = events w @ evs \<and> sends_only (encode req) evs"
proof (cases r)
  case (Inr data)
  with assms send_receive_bytes_ok [of env c req b m w data w'] show ?thesis
    by (auto intro: sends_only_transaction)
next
  case (Inl e)
  with assms send_receive_bytes_err [of env c req b m w e w']
  obtain evs where ev: "events w' = events w @ evs"
    and cases: "list_all (failed_attempt (next_sock w) (next_sock w')) evs
            \<or> (\<exists>sid ip port pre. evs = pre @ [SocketCreate sid, Connect sid ip port True,
                    SendAll sid (encode req), ShutdownWR sid]
                  \<and> list_all (failed_attempt (next_sock w) sid) pre)"
    by blast
  from cases have "sends_only (encode req) evs"
  proof
    assume "list_all (failed_attempt (next_sock w) (next_sock w')) evs"
    then show ?thesis by (rule sends_only_failed)
  next
    assume "\<exists>sid ip port pre. evs = pre @ [SocketCreate sid, Connect sid ip port True,
                    SendAll sid (encode req), ShutdownWR sid]
                  \<and> list_all (failed_attempt (next_sock w) sid) pre"
    then obtain sid ip port pre where e: "evs = pre @ [SocketCreate sid, Connect sid ip port True,
                    SendAll sid (encode req), ShutdownWR sid] @ [] @ []"
      and p: "list_all (failed_attempt (next_sock w) sid) pre"
      by auto
    show ?thesis unfolding e by (rule sends_only_started [OF p]) simp_all
  qed
  with ev show ?thesis by blast
qed

lemma send_receive_data_world:
  "snd (send_receive_data env c req b m w) = snd (send_receive_bytes env c req b m w)"
  by (auto simp: send_receive_data_def io_defs split: prod.splits sum.splits option.splits)


lemma send_receive_data_sends_only:
  assumes "send_receive_data env c req b m w = (r, w')"
  shows "\<exists>evs. events w' = events w @ evs \<and> sends_only (encode req) evs"
proof -
  obtain r0 where "send_receive_bytes env c req b m w = (r0, w')"
    using assms send_receive_data_world [of env c req b m w]
    by (cases "send_receive_bytes env c req b m w") simp
  then show ?thesis by (rule send_receive_bytes_sends_only)
qed


lemma connect_once_accepted:
  assumes "getitem2 (optimizer_details_from_yml c) ''tcp'' ''ip'' = Inr (PStr h)"
    and "getitem2 (optimizer_details_from_yml c) ''tcp'' ''port'' = Inr (PInt n)"
    and "0 \<le> n" "n \<le> 65535"
    and "net env (next_sock w) h n = Accepted srv"
  shows "connect_once env c w =
     (Inr \<lparr>fd = next_sock w, peer = srv, outbuf = [], inbuf = []\<rparr>,
      w\<lparr>events := events w @ [SocketCreate (next_sock w), Connect (next_sock w) (PStr h) (PInt n) True],
        next_sock := Suc (next_sock w)\<rparr>)"
  using assms
  by (simp add: connect_once_def socket_create_def sock_connect_def address_def io_defs)

lemma connect_once_refused:
  assumes "getitem2 (optimizer_details_from_yml c) ''tcp'' ''ip'' = Inr (PStr h)"
    and "getitem2 (optimizer_details_from_yml c) ''tcp'' ''port'' = Inr (PInt n)"
    and "0 \<le> n" "n \<le> 65535"
    and "net env (next_sock w) h n = Errno e"
  shows "connect_once env c w =
     (Inl (OSError e),
      w\<lparr>events := events w @ [SocketCreate (next_sock w), Connect (next_sock w) (PStr h) (PInt n) False],
        next_sock := Suc (next_sock w)\<rparr>)"
  using assms
  by (simp add: connect_once_def socket_create_def sock_connect_def address_def io_defs)

lemma retry_more_first: "f w = (Inr x, w') \<Longrightarrow> retry_more n d f w = (Inr x, w')"
  by (cases n) simp_all

lemma send_receive_bytes_first_try:
  assumes "getitem2 (optimizer_details_from_yml c) ''tcp'' ''ip'' = Inr (PStr h)"
    and "getitem2 (optimizer_details_from_yml c) ''tcp'' ''port'' = Inr (PInt n)"
    and "0 \<le> n" "n \<le> 65535"
    and "net env (next_sock w) h n = Accepted srv"
    and "0 < b"
  shows "send_receive_bytes env c req b m w =
     (Inr (concat (recv_chunks (rounds m b) (nat b) (srv (encode req)))),
      w\<lparr>events := events w @
          [SocketCreate (next_sock w), Connect (next_sock w) (PStr h) (PInt n) True,
           SendAll (next_sock w) (encode req), ShutdownWR (next_sock w)]
          @ map (Recv (next_sock w) b) (recv_chunks (rounds m b) (nat b) (srv (encode req)))
          @ [Close (next_sock w)],
        next_sock := Suc (next_sock w)\<rparr>)"
proof -
  have conn: "obtain_socket_connection env c w =
     (Inr \<lparr>fd = next_sock w, peer = srv, outbuf = [], inbuf = []\<rparr>,
      w\<lparr>events := events w @ [SocketCreate (next_sock w), Connect (next_sock w) (PStr h) (PInt n) True],
        next_sock := Suc (next_sock w)\<rparr>)"
    unfolding obtain_socket_connection_def retry_def
    by (rule retry_more_first) (rule connect_once_accepted [OF assms(1-5)])
  from \<open>0 < b\<close> have b: "0 \<le> b" "b \<noteq> 0" by simp_all
  show ?thesis
    by (simp add: send_receive_bytes_def conn sendall_def shutdown_wr_def ceil_div_def b
        read_rounds_eq [OF b(1)] sock_close_def rounds_def io_defs)
qed

lemma retry_more_unreachable:
  assumes "getitem2 (optimizer_details_from_yml c) ''tcp'' ''ip'' = Inr (PStr h)"
    and "getitem2 (optimizer_details_from_yml c) ''tcp'' ''port'' = Inr (PInt n)"
    and "0 \<le> n" "n \<le> 65535"
    and "\<And>sid. net env sid h n = Errno (err sid)"
  shows "retry_more m d (connect_once env c) w =
     (Inl (OSError (err (next_sock w + m))),
      w\<lparr>events := events w @ failed_attempts (PStr h) (PInt n) d (next_sock w) m,
        next_sock := Suc (next_sock w + m)\<rparr>)"
proof (induction m arbitrary: w)
  case 0
  show ?case using connect_once_refused [OF assms(1-4), of env w "err (next_sock w)"] assms(5)
    by simp
next
  case (Suc m)
  show ?case
    using connect_once_refused [OF assms(1-4), of env w "err (next_sock w)"] assms(5)
    by (simp add: Suc.IH io_defs)
qed

lemma failed_attempts_10:
  "failed_attempts ip port d k 9 =
     concat (map (\<lambda>i. [SocketCreate (k + i), Connect (k + i) ip port False]
                       @ (if i < 9 then [Sleep d] else [])) [0..<10])"
  by (simp add: eval_nat_numeral upt_rec)

lemma recv_chunks_single:
  "seg \<noteq> [] \<Longrightarrow> length seg \<le> n \<Longrightarrow> 0 < k \<Longrightarrow> recv_chunks k n [seg] = seg # replicate (k - 1) []"
  by (cases k) (simp_all add: recv_chunks_Nil)

lemma demo_env_simps:
  "net demo_env = demo_net" "bytes_decode demo_env = demo_decode" "json_loads demo_env = demo_loads"
  "solver_response demo_env = Inr" "to_float demo_env = Inr"
  "to_str demo_env = float_str (\<lambda>i. show_int i @ ''.0'')"
  "installed_version demo_env = Inr ''0.6.3''"
  by (simp_all add: demo_env_def)

lemma demo_tcp:
  "getitem2 (optimizer_details_from_yml (demo_client port)) ''tcp'' ''ip'' = Inr (PStr ''127.0.0.1'')"
  "getitem2 (optimizer_details_from_yml (demo_client port)) ''tcp'' ''port'' = Inr (PInt port)"
  by (simp_all add: demo_client_def demo_descriptor_def getitem2_def bind_sum_def)

lemma encode_ping: \<open>encode ''{"Ping":1}'' = ''{"Ping":1}''\<close>
  by (simp add: encode_def encode_char_def)

lemma encode_kill: \<open>encode ''{"Kill":1}'' = ''{"Kill":1}''\<close>
  by (simp add: encode_def encode_char_def)

lemma rounds_default: "rounds 1048576 512 = 2048"
  by (simp add: rounds_def)

lemma demo_bytes_ping:
  \<open>send_receive_bytes demo_env (demo_client 8080) ''{"Ping":1}'' 512 1048576 w0 =
     (Inr ''{"Pong":1}'',
      \<lparr>events = [SocketCreate 0, Connect 0 (PStr ''127.0.0.1'') (PInt 8080) True,
                 SendAll 0 ''{"Ping":1}'', ShutdownWR 0, Recv 0 512 ''{"Pong":1}'']
                @ replicate 2047 (Recv 0 512 []) @ [Close 0],
       next_sock = 1\<rparr>)\<close>
proof -
  have net: \<open>net demo_env (next_sock w0) ''127.0.0.1'' 8080 = Accepted (\<lambda>req. [''{"Pong":1}''])\<close>
    by (simp add: demo_env_simps demo_net_def)
  show ?thesis
    using send_receive_bytes_first_try [OF demo_tcp(1) demo_tcp(2) _ _ net, of 512 \<open>''{"Ping":1}''\<close> 1048576]
    by (simp add: rounds_default recv_chunks_single encode_ping w0_def)
qed

lemma encode_append: "encode (a @ b) = encode a @ encode b"
  by (simp add: encode_def)



lemma call_world:
  "run_message env p g y pen = Inr msg \<Longrightarrow>
   snd (call env c p g y pen bl mds w) =
     snd (send_receive_data env c msg bl mds
            (w\<lparr>events := events w @ [Log Debug ''Sending request to TCP/IP server'' []]\<rparr>))"
  by (auto simp: call_def io_defs split: prod.splits sum.splits option.splits)


lemma sends_only_world:
  assumes "snd (op w) = snd (send_receive_data env c req b m w1)" "events w1 = events w @ pre"
  shows "\<exists>evs. events (snd (op w)) = events w @ pre @ evs \<and> sends_only (encode req) evs"
proof -
  obtain r w' where run: "send_receive_data env c req b m w1 = (r, w')"
    by (cases "send_receive_data env c req b m w1")
  from send_receive_data_sends_only [OF run] assms run show ?thesis by auto
qed

lemma sends_only_sent:
  "sends_only payload evs \<Longrightarrow> Connect sid ip port True \<in> set evs \<Longrightarrow> SendAll sid payload \<in> set evs"
  unfolding sends_only_def by blast

lemma send_receive_data_first_try:
  assumes "getitem2 (optimizer_details_from_yml c) ''tcp'' ''ip'' = Inr (PStr h)"
    and "getitem2 (optimizer_details_from_yml c) ''tcp'' ''port'' = Inr (PInt n)"
    and "0 \<le> n" "n \<le> 65535"
    and "net env (next_sock w) h n = Accepted srv"
    and "0 < b"
    and "bytes_decode env (concat (recv_chunks (rounds m b) (nat b) (srv (encode req)))) = Some u"
  shows "send_receive_data env c req b m w =
     (Inr u,
      w\<lparr>events := events w @
          [SocketCreate (next_sock w), Connect (next_sock w) (PStr h) (PInt n) True,
           SendAll (next_sock w) (encode req), ShutdownWR (next_sock w)]
          @ map (Recv (next_sock w) b) (recv_chunks (rounds m b) (nat b) (srv (encode req)))
          @ [Close (next_sock w)],
        next_sock := Suc (next_sock w)\<rparr>)"
  using assms(7)
  by (simp add: send_receive_data_def send_receive_bytes_first_try [OF assms(1-6)] bind_def ret_def)

lemma call_accepted:
  assumes "getitem2 (optimizer_details_from_yml c) ''tcp'' ''ip'' = Inr (PStr h)"
    and "getitem2 (optimizer_details_from_yml c) ''tcp'' ''port'' = Inr (PInt n)"
    and "0 \<le> n" "n \<le> 65535"
    and "net env (next_sock w) h n = Accepted srv"
    and "0 < bl"
    and "run_message env p g y pen = Inr msg"
    and "bytes_decode env (concat (recv_chunks (rounds mds bl) (nat bl) (srv (encode msg)))) = Some u"
    and "json_loads env u = Some j"
  shows "call env c p g y pen bl mds w =
     (solver_response env j,
      w\<lparr>events := events w @
          [Log Debug ''Sending request to TCP/IP server'' [],
           SocketCreate (next_sock w), Connect (next_sock w) (PStr h) (PInt n) True,
           SendAll (next_sock w) (encode msg), ShutdownWR (next_sock w)]
          @ map (Recv (next_sock w) bl) (recv_chunks (rounds mds bl) (nat bl) (srv (encode msg)))
          @ [Close (next_sock w)],
        next_sock := Suc (next_sock w)\<rparr>)"
proof -
  let ?w1 = "w\<lparr>events := events w @ [Log Debug ''Sending request to TCP/IP server'' []]\<rparr>"
  have net: "net env (next_sock ?w1) h n = Accepted srv" using assms(5) by simp
  show ?thesis
    using assms(7,9)
    by (simp add: call_def send_receive_data_first_try [OF assms(1-4) net assms(6) assms(8)] io_defs)
qed




lemma ping_undecodable:
  assumes \<open>send_receive_bytes env c ''{"Ping":1}'' 512 1048576 w = (Inr data, w')\<close>
  shows "bytes_decode env data = None \<Longrightarrow> ping env c w = (Inl UnicodeDecodeError, w')"
    and "bytes_decode env data = Some u \<Longrightarrow> json_loads env u = None
           \<Longrightarrow> ping env c w = (Inl JSONDecodeError, w')"
  using assms by (simp_all add: ping_def send_receive_data_def io_defs)

lemma call_undecodable:
  assumes "run_message env p g y pen = Inr msg"
    and "send_receive_bytes env c msg bl mds
           (w\<lparr>events := events w @ [Log Debug ''Sending request to TCP/IP server'' []]\<rparr>) = (Inr data, w')"
  shows "bytes_decode env data = None \<Longrightarrow> call env c p g y pen bl mds w = (Inl UnicodeDecodeError, w')"
    and "bytes_decode env data = Some u \<Longrightarrow> json_loads env u = None
           \<Longrightarrow> call env c p g y pen bl mds w = (Inl JSONDecodeError, w')"
  using assms by (simp_all add: call_def send_receive_data_def io_defs)

lemma obtain_socket_connection_unreachable:
  assumes "getitem2 (optimizer_details_from_yml c) ''tcp'' ''ip'' = Inr (PStr h)"
    and "getitem2 (optimizer_details_from_yml c) ''tcp'' ''port'' = Inr (PInt n)"
    and "0 \<le> n" "n \<le> 65535"
    and "\<And>sid. net env sid h n = Errno (err sid)"
  shows "obtain_socket_connection env c w =
     (Inl (OSError (err (next_sock w + 9))),
      w\<lparr>events := events w @
          concat (map (\<lambda>i. [SocketCreate (next_sock w + i),
                             Connect (next_sock w + i) (PStr h) (PInt n) False]
                            @ (if i < 9 then [Sleep 1] else [])) [0..<10]),
        next_sock := next_sock w + 10\<rparr>)"
proof -
  have tries: "retry 10 1 f = retry_more 9 1 f" for f :: "sock io"
    by (simp add: retry_def)
  have last: "Suc (next_sock w + 9) = next_sock w + 10" by simp
  show ?thesis
    by (simp only: obtain_socket_connection_def tries retry_more_unreachable [OF assms]
        failed_attempts_10 last)
qed

lemma init_without_path_raises: "isl (fst (init env None ip port w))"
  by (simp add: init_def getitem2_def bind_sum_def io_defs)

lemma init_has_path:
  assumes "init env path ip port w = (Inr c, w')"
  shows "optimizer_path c = path" and "path \<noteq> None"
proof -
  from assms show "optimizer_path c = path"
    by (auto simp: init_def io_defs split: prod.splits sum.splits if_splits)
  from assms init_without_path_raises [of env ip port w] show "path \<noteq> None"
    by (cases path) auto
qed

lemma check_if_server_is_running_accepted:
  assumes "getitem2 (optimizer_details_from_yml c) ''tcp'' ''ip'' = Inr (PStr h)"
    and "getitem2 (optimizer_details_from_yml c) ''tcp'' ''port'' = Inr (PInt n)"
    and "0 \<le> n" "n \<le> 65535"
    and "net env (next_sock w) h n = Accepted srv"
  shows "check_if_server_is_running env c w =
     (Inr True,
      w\<lparr>events := events w @ [SocketCreate (next_sock w), Connect (next_sock w) (PStr h) (PInt n) True],
        next_sock := Suc (next_sock w)\<rparr>)"
  using assms
  by (simp add: check_if_server_is_running_def socket_create_def sock_connect_ex_def address_def io_defs)

lemma sublist_join: "s \<in> set ss \<Longrightarrow> sublist s (join sep ss)"
proof (induction sep ss rule: join.induct)
  case (3 sep x y ys)
  show ?case
  proof (cases "s = x")
    case True
    then show ?thesis by simp
  next
    case False
    with 3 have "sublist s (join sep (y # ys))" by simp
    then obtain ps ss where "join sep (y # ys) = ps @ s @ ss" by (auto simp: sublist_def)
    then have "join sep (x # y # ys) = (x @ sep @ ps) @ s @ ss" by simp
    then show ?thesis unfolding sublist_def by blast
  qed
qed simp_all

lemma sublist_encode: "sublist a b \<Longrightarrow> sublist (encode a) (encode b)"
  by (auto simp: sublist_def encode_append) blast

lemma sublist_in: "sublist s m \<Longrightarrow> sublist s (a @ m @ b)"
  by (auto simp: sublist_def) (metis append.assoc)

subsection \<open>Runs in the concrete environment\<close>

lemma w0_simps: "events w0 = []" "next_sock w0 = 0"
  by (simp_all add: w0_def)

lemma demo_net_8080: \<open>net demo_env k ''127.0.0.1'' 8080 = Accepted (\<lambda>req. [''{"Pong":1}''])\<close>
  by (simp add: demo_env_simps demo_net_def)

lemma demo_net_8081: \<open>net demo_env k ''127.0.0.1'' 8081 = Accepted (\<lambda>req. [''{"Pon''])\<close>
  by (simp add: demo_env_simps demo_net_def)

lemma demo_net_closed: "net demo_env sid ''127.0.0.1'' 9 = Errno 111"
  by (simp add: demo_env_simps demo_net_def)

lemma demo_init:
  "init demo_env (Some ''/opt/foo'') ip port w0 =
     (Inr (demo_client 8080),
      \<lparr>events = [Log Info ''loading TCP/IP details'' [],
                 Log Info ''TCP/IP details: %s:%d'' [PStr ''127.0.0.1'', PInt 8080],
                 Log Warning ''the target optimizer was build with a different version of opengen (%s)''
                   [PStr ''0.6.2''],
                 Log Warning ''you are running opengen version %s'' [PStr ''0.6.3'']],
       next_sock = 0\<rparr>)"
  by (simp add: init_def load_tcp_details_def path_join_def demo_env_def demo_client_def
      demo_descriptor_def getitem2_def bind_sum_def io_defs w0_def)

lemma demo_ping:
  \<open>ping demo_env (demo_client 8080) w0 =
     (Inr (PDict [(''Pong'', PInt 1)]),
      \<lparr>events = [SocketCreate 0, Connect 0 (PStr ''127.0.0.1'') (PInt 8080) True,
                 SendAll 0 ''{"Ping":1}'', ShutdownWR 0, Recv 0 512 ''{"Pong":1}'']
                @ replicate 2047 (Recv 0 512 []) @ [Close 0],
       next_sock = 1\<rparr>)\<close>
  by (simp add: ping_def send_receive_data_def demo_bytes_ping bind_def ret_def
      demo_env_simps demo_decode_def demo_loads_def)


lemma rounds_call_default: "rounds 1048576 4096 = 256"
  by (simp add: rounds_def)

lemma demo_run_message:
  \<open>run_message demo_env [Finite 1, PosInf] (Some [Finite 2]) None (Some (Finite 5)) =
     Inr ''{"Run" : {"parameter": [1.0,inf], "initial_guess": [2.0], "initial_penalty": 5.0}}''\<close>
  by (simp add: run_message_def demo_env_simps float_str_def show_int_def)


lemma demo_call:
  \<open>call demo_env (demo_client 8080) [Finite 1, PosInf] (Some [Finite 2]) None (Some (Finite 5))
       4096 1048576 w0 =
     (Inr (PDict [(''Pong'', PInt 1)]),
      \<lparr>events = [Log Debug ''Sending request to TCP/IP server'' [],
                 SocketCreate 0, Connect 0 (PStr ''127.0.0.1'') (PInt 8080) True,
                 SendAll 0 ''{"Run" : {"parameter": [1.0,inf], "initial_guess": [2.0], "initial_penalty": 5.0}}'',
                 ShutdownWR 0, Recv 0 4096 ''{"Pong":1}'']
                @ replicate 255 (Recv 0 4096 []) @ [Close 0],
       next_sock = 1\<rparr>)\<close>
  using call_accepted [OF demo_tcp(1) demo_tcp(2) _ _ demo_net_8080 _ demo_run_message,
      where bl = 4096 and mds = 1048576 and u = \<open>''{"Pong":1}''\<close>
        and j = \<open>PDict [(''Pong'', PInt 1)]\<close> and w = w0]
  by (simp add: rounds_call_default recv_chunks_single demo_env_simps demo_decode_def demo_loads_def w0_def
      encode_def encode_char_def)

lemma demo_bytes_ping_cut:
  \<open>send_receive_bytes demo_env (demo_client 8081) ''{"Ping":1}'' 512 1048576 w0 =
     (Inr ''{"Pon'',
      \<lparr>events = [SocketCreate 0, Connect 0 (PStr ''127.0.0.1'') (PInt 8081) True,
                 SendAll 0 ''{"Ping":1}'', ShutdownWR 0, Recv 0 512 ''{"Pon'']
                @ replicate 2047 (Recv 0 512 []) @ [Close 0],
       next_sock = 1\<rparr>)\<close>
  using send_receive_bytes_first_try [OF demo_tcp(1) demo_tcp(2) _ _ demo_net_8081,
        where b = 512 and m = 1048576 and req = \<open>''{"Ping":1}''\<close> and w = w0]
  by (simp add: rounds_default recv_chunks_single encode_ping w0_def)

lemma demo_bytes_call_cut:
  \<open>send_receive_bytes demo_env (demo_client 8081)
       ''{"Run" : {"parameter": [1.0,inf], "initial_guess": [2.0], "initial_penalty": 5.0}}''
       4096 1048576 (w0\<lparr>events := events w0 @ [Log Debug ''Sending request to TCP/IP server'' []]\<rparr>) =
     (Inr ''{"Pon'',
      \<lparr>events = [Log Debug ''Sending request to TCP/IP server'' [],
                 SocketCreate 0, Connect 0 (PStr ''127.0.0.1'') (PInt 8081) True,
                 SendAll 0 ''{"Run" : {"parameter": [1.0,inf], "initial_guess": [2.0], "initial_penalty": 5.0}}'',
                 ShutdownWR 0, Recv 0 4096 ''{"Pon'']
                @ replicate 255 (Recv 0 4096 []) @ [Close 0],
       next_sock = 1\<rparr>)\<close>
  using send_receive_bytes_first_try [OF demo_tcp(1) demo_tcp(2) _ _ demo_net_8081,
        where b = 4096 and m = 1048576
          and req = \<open>''{"Run" : {"parameter": [1.0,inf], "initial_guess": [2.0], "initial_penalty": 5.0}}''\<close>
          and w = \<open>w0\<lparr>events := events w0 @ [Log Debug ''Sending request to TCP/IP server'' []]\<rparr>\<close>]
  by (simp add: rounds_call_default recv_chunks_single w0_def encode_def encode_char_def)

lemma encode_demo_message:
  \<open>encode ''{"Run" : {"parameter": [1.0,inf], "initial_guess": [2.0], "initial_penalty": 5.0}}''
     = ''{"Run" : {"parameter": [1.0,inf], "initial_guess": [2.0], "initial_penalty": 5.0}}''\<close>
  by (simp add: encode_def encode_char_def)

lemma demo_net_8082: "net demo_env k ''127.0.0.1'' 8082 = Accepted (\<lambda>req. [[CHR 0xFF]])"
  by (simp add: demo_env_simps demo_net_def)

lemma demo_bytes_kill_garbled:
  \<open>send_receive_bytes demo_env (demo_client 8082) ''{"Kill":1}'' 512 1048576
       (w0\<lparr>events := events w0 @ [Log Info ''Killing server'' []]\<rparr>) =
     (Inr [CHR 0xFF],
      \<lparr>events = [Log Info ''Killing server'' [],
                 SocketCreate 0, Connect 0 (PStr ''127.0.0.1'') (PInt 8082) True,
                 SendAll 0 ''{"Kill":1}'', ShutdownWR 0, Recv 0 512 [CHR 0xFF]]
                @ replicate 2047 (Recv 0 512 []) @ [Close 0],
       next_sock = 1\<rparr>)\<close>
  using send_receive_bytes_first_try [OF demo_tcp(1) demo_tcp(2) _ _ demo_net_8082,
        where b = 512 and m = 1048576 and req = \<open>''{"Kill":1}''\<close>
          and w = \<open>w0\<lparr>events := events w0 @ [Log Info ''Killing server'' []]\<rparr>\<close>]
  by (simp add: rounds_default recv_chunks_single encode_kill w0_def)

section \<open>Construction\<close>

text \<open>
  C1.  The claim: a construction with an explicit host and port and no launch
  path succeeds, the instance holds only the remote endpoint, and a version
  mismatch is logged, never raised.  The code builds the dictionary
  \<^verbatim>\<open>{"tcp": {"ip": ip, "port": port}}\<close> and then reads
  \<^verbatim>\<open>['build']['opengen_version']\<close> from it: whatever the environment is, the
  construction raises \<^verbatim>\<open>KeyError('build')\<close> before the version comparison, and
  nothing is logged.
\<close>

theorem init_remote_raises_KeyError:
  "init env None (PStr ''127.0.0.1'') (PInt 8080) w = (Inl (KeyError ''build''), w)"
  by (simp add: init_def bind_def ret_def lift_def getitem2_def bind_sum_def)

text \<open>
  C5, as the code has it.  The claim: a construction with both a launch path and
  a host and port fails, one with neither fails, and only those with exactly one
  of the two succeed.  In the code the launch path is tested first and the host
  and port are read only in its absence: a construction without a launch path
  and without both a host and a port raises \<^verbatim>\<open>Exception("Illegal arguments")\<close>,
  and a construction with a launch path does exactly what it does when no host
  and port come with it.
\<close>

theorem init_modes:
  "(ip = PNone \<or> port = PNone
      \<longrightarrow> init env None ip port w = (Inl (Exception ''Illegal arguments''), w))
   \<and> init env (Some path) ip port w = init env (Some path) PNone PNone w"
  by (simp add: init_def io_defs)

text \<open>The theorem at two constructions: a port without a host, and a path with both.\<close>

theorem init_modes_witness:
  "init demo_env None PNone (PInt 8080) w0 = (Inl (Exception ''Illegal arguments''), w0)
   \<and> init demo_env (Some ''/opt/foo'') (PStr ''10.0.0.1'') (PInt 9000) w0
       = init demo_env (Some ''/opt/foo'') PNone PNone w0"
  using init_modes [of PNone "PInt 8080" demo_env w0]
    init_modes [of "PStr ''10.0.0.1''" "PInt 9000" demo_env w0 "''/opt/foo''"]
  by simp

text \<open>
  Against C5 as stated: the descriptor of \<^verbatim>\<open>/opt/foo\<close> is loaded and the
  instance is returned although a host and a port are passed too.
\<close>

theorem init_with_both_counterexample:
  "init demo_env (Some ''/opt/foo'') (PStr ''10.0.0.1'') (PInt 9000) w0 =
     (Inr (demo_client 8080),
      \<lparr>events = [Log Info ''loading TCP/IP details'' [],
                 Log Info ''TCP/IP details: %s:%d'' [PStr ''127.0.0.1'', PInt 8080],
                 Log Warning ''the target optimizer was build with a different version of opengen (%s)''
                   [PStr ''0.6.2''],
                 Log Warning ''you are running opengen version %s'' [PStr ''0.6.3'']],
       next_sock = 0\<rparr>)"
  by (rule demo_init)

section \<open>The read loop\<close>

text \<open>
  C2.  The claim: the read loop stops at the earlier of the peer closing the
  connection (a read that returns no more data) and the round cap.  The loop
  leaves early only when the chunk \<^verbatim>\<open>is None\<close>, and \<^verbatim>\<open>recv\<close> returns the empty
  byte string, never \<^verbatim>\<open>None\<close>, when the peer has closed.  Here the server sends
  ten bytes and closes: the first read returns them, the second returns no data,
  and 2046 more reads follow, up to the cap of 2048 rounds, before the socket is
  closed.
\<close>

theorem ping_reads_to_the_cap_after_close:
  \<open>ping demo_env (demo_client 8080) w0 =
     (Inr (PDict [(''Pong'', PInt 1)]),
      \<lparr>events = [SocketCreate 0, Connect 0 (PStr ''127.0.0.1'') (PInt 8080) True,
                 SendAll 0 ''{"Ping":1}'', ShutdownWR 0, Recv 0 512 ''{"Pong":1}'']
                @ replicate 2047 (Recv 0 512 []) @ [Close 0],
       next_sock = 1\<rparr>)\<close>
  by (rule demo_ping)

section \<open>Requests\<close>






text \<open>
  C10.  The run request is built without any check of the numbers.  With \<^verbatim>\<open>str\<close>
  the rendering of Python floats and \<^verbatim>\<open>float\<close> the identity on them: when a
  value that is not finite occurs among the parameters, the initial guess or the
  initial multipliers, the request is still built, the bytes to send contain the
  token \<^verbatim>\<open>inf\<close> (as \<^verbatim>\<open>inf\<close> or \<^verbatim>\<open>-inf\<close>) or \<^verbatim>\<open>nan\<close> as it is, and these are
  the bytes written to every socket that gets connected.
\<close>

theorem non_finite_values_are_sent:
  assumes "to_str env = float_str repr"
    and "\<And>v. to_float env v = Inr v"
    and "x \<in> set p \<union> (case g of None \<Rightarrow> {} | Some xs \<Rightarrow> set xs)
             \<union> (case y of None \<Rightarrow> {} | Some xs \<Rightarrow> set xs)"
    and "x = PosInf \<or> x = NegInf \<or> x = NaN"
  shows "\<exists>msg. run_message env p g y pen = Inr msg
     \<and> sublist (if x = NaN then ''nan'' else if x = NegInf then ''-inf'' else ''inf'') (encode msg)
     \<and> (\<exists>evs. events (snd (call env c p g y pen bl mds w))
                 = events w @ [Log Debug ''Sending request to TCP/IP server'' []] @ evs
               \<and> sends_only (encode msg) evs)"
proof -
  define tok where "tok = (if x = NaN then ''nan'' else if x = NegInf then ''-inf'' else ''inf'')"
  have tok: "to_str env x = tok" "encode tok = tok"
    using assms(1,4) by (auto simp: tok_def float_str_def encode_def encode_char_def)
  define ptxt where "ptxt = (case pen of None \<Rightarrow> []
     | Some v \<Rightarrow> [CHR '','', CHR '' '', CHR 0x22] @ ''initial_penalty'' @ [CHR 0x22, CHR '':'', CHR '' '']
         @ to_str env v)"
  define P where "P = join '','' (map (to_str env) p)"
  define G where "G = (case g of None \<Rightarrow> []
     | Some xs \<Rightarrow> [CHR '','', CHR '' '', CHR 0x22] @ ''initial_guess'' @ [CHR 0x22, CHR '':'', CHR '' '', CHR ''['']
         @ join '','' (map (to_str env) xs) @ '']'')"
  define Y where "Y = (case y of None \<Rightarrow> []
     | Some xs \<Rightarrow> [CHR '','', CHR '' '', CHR 0x22] @ ''initial_lagrange_multipliers''
         @ [CHR 0x22, CHR '':'', CHR '' '', CHR ''['']
         @ join '','' (map (to_str env) xs) @ '']'')"
  define A where "A = [CHR ''{'', CHR 0x22] @ ''Run'' @ [CHR 0x22] @ '' : {'' @ [CHR 0x22] @ ''parameter''
     @ [CHR 0x22] @ '': [''"
  define msg where "msg = A @ P @ '']'' @ G @ Y @ ptxt @ ''}}''"
  have run: "run_message env p g y pen = Inr msg"
    using assms(2)
    by (simp add: run_message_def msg_def A_def P_def G_def Y_def ptxt_def split: option.splits)
  from assms(3) consider (p) "x \<in> set p" | (g) xs where "g = Some xs" "x \<in> set xs"
    | (y) xs where "y = Some xs" "x \<in> set xs"
    by (auto split: option.splits)
  then have "sublist tok msg"
  proof cases
    case p
    then have "sublist tok P" unfolding P_def using sublist_join [of "to_str env x"] tok(1) by force
    then show ?thesis unfolding msg_def by (rule sublist_in)
  next
    case g
    then have "sublist tok (join '','' (map (to_str env) xs))"
      using sublist_join [of "to_str env x"] tok(1) by force
    then have "sublist tok G" unfolding G_def g(1) option.case
      using sublist_in by (metis append.assoc)
    then have "sublist tok ((A @ P @ '']'') @ G @ (Y @ ptxt @ ''}}''))" by (rule sublist_in)
    then show ?thesis by (simp add: msg_def)
  next
    case y
    then have "sublist tok (join '','' (map (to_str env) xs))"
      using sublist_join [of "to_str env x"] tok(1) by force
    then have "sublist tok Y" unfolding Y_def y(1) option.case
      using sublist_in by (metis append.assoc)
    then have "sublist tok ((A @ P @ '']'' @ G) @ Y @ (ptxt @ ''}}''))" by (rule sublist_in)
    then show ?thesis by (simp add: msg_def)
  qed
  from sublist_encode [OF this] have sub: "sublist tok (encode msg)" by (simp add: tok(2))
  obtain evs where "events (snd (call env c p g y pen bl mds w))
                 = events w @ [Log Debug ''Sending request to TCP/IP server'' []] @ evs"
      "sends_only (encode msg) evs"
    using sends_only_world [of "call env c p g y pen bl mds" w env c msg bl mds _
        "[Log Debug ''Sending request to TCP/IP server'' []]", OF call_world [OF run]]
    by auto
  with run sub show ?thesis unfolding tok_def by blast
qed

text \<open>The theorem at a call whose second parameter is infinite.\<close>

theorem non_finite_values_are_sent_witness:
  \<open>sublist ''inf'' ''{"Run" : {"parameter": [1.0,inf], "initial_guess": [2.0], "initial_penalty": 5.0}}''
   \<and> SendAll 0 ''{"Run" : {"parameter": [1.0,inf], "initial_guess": [2.0], "initial_penalty": 5.0}}''
       \<in> set (events (snd (call demo_env (demo_client 8080) [Finite 1, PosInf] (Some [Finite 2]) None
                               (Some (Finite 5)) 4096 1048576 w0)))\<close>
proof -
  have str: "to_str demo_env = float_str (\<lambda>i. show_int i @ ''.0'')"
    and fl: "\<And>v. to_float demo_env v = Inr v"
    by (simp_all add: demo_env_simps)
  have mem: "(PosInf :: int pyfloat) \<in> set [Finite 1, PosInf]
      \<union> (case Some [Finite 2] of None \<Rightarrow> {} | Some xs \<Rightarrow> set xs)
      \<union> (case None of None \<Rightarrow> {} | Some xs \<Rightarrow> set xs)"
    by simp
  have nf: "(PosInf :: int pyfloat) = PosInf \<or> (PosInf :: int pyfloat) = NegInf
      \<or> (PosInf :: int pyfloat) = NaN"
    by simp
  from non_finite_values_are_sent [OF str fl mem nf, where c = "demo_client 8080"
      and pen = "Some (Finite 5)" and bl = 4096 and mds = 1048576 and w = w0]
  obtain msg evs where
    m: "run_message demo_env [Finite 1, PosInf] (Some [Finite 2]) None (Some (Finite 5)) = Inr msg"
    and sub: "sublist ''inf'' (encode msg)"
    and ev: "events (snd (call demo_env (demo_client 8080) [Finite 1, PosInf] (Some [Finite 2]) None
                               (Some (Finite 5)) 4096 1048576 w0))
             = events w0 @ [Log Debug ''Sending request to TCP/IP server'' []] @ evs"
    and only: "sends_only (encode msg) evs"
    by auto
  from m demo_run_message have
    \<open>msg = ''{"Run" : {"parameter": [1.0,inf], "initial_guess": [2.0], "initial_penalty": 5.0}}''\<close>
    by simp
  then have msg: \<open>encode msg
      = ''{"Run" : {"parameter": [1.0,inf], "initial_guess": [2.0], "initial_penalty": 5.0}}''\<close>
    by (simp only: encode_demo_message)
  from ev have "Connect 0 (PStr ''127.0.0.1'') (PInt 8080) True \<in> set evs"
    by (auto simp: demo_call w0_simps)
  from sends_only_sent [OF only this] ev sub show ?thesis
    by (simp add: msg)
qed

section \<open>Starting the server\<close>

text \<open>
  C6.  When the target port accepts a connection at the time \<^verbatim>\<open>start\<close> probes
  it, \<^verbatim>\<open>start\<close> raises \<^verbatim>\<open>Exception("Port <n> not available")\<close>, and the only
  events are those of the probe: no thread is started, so no server process is
  spawned.  This holds for every instance that the constructor returns (each of
  them has a launch path); the descriptor names the address by a string and the
  port by an integer.
\<close>

theorem start_port_unavailable:
  assumes "init env path ip0 port0 wi = (Inr c, wc)"
    and "getitem2 (optimizer_details_from_yml c) ''tcp'' ''ip'' = Inr (PStr h)"
    and "getitem2 (optimizer_details_from_yml c) ''tcp'' ''port'' = Inr (PInt n)"
    and "0 \<le> n" "n \<le> 65535"
    and "net env (next_sock w) h n = Accepted srv"
  shows "start env c w =
     (Inl (Exception (''Port '' @ show_int n @ '' not available'')),
      w\<lparr>events := events w @ [SocketCreate (next_sock w), Connect (next_sock w) (PStr h) (PInt n) True],
        next_sock := Suc (next_sock w)\<rparr>)
    \<and> (\<forall>t. ThreadStart t \<in> set (events (snd (start env c w))) \<longrightarrow> ThreadStart t \<in> set (events w))"
proof -
  from init_has_path [OF assms(1)] have path: "optimizer_path c \<noteq> None" by simp
  have run: "start env c w =
     (Inl (Exception (''Port '' @ show_int n @ '' not available'')),
      w\<lparr>events := events w @ [SocketCreate (next_sock w), Connect (next_sock w) (PStr h) (PInt n) True],
        next_sock := Suc (next_sock w)\<rparr>)"
    using path assms(3)
    by (simp add: start_def check_if_server_is_running_accepted [OF assms(2-6)] port_message_def io_defs)
  then show ?thesis by simp
qed

text \<open>The theorem for the optimizer of \<^verbatim>\<open>/opt/foo\<close>, whose server is already up.\<close>

theorem start_port_unavailable_witness:
  "start demo_env (demo_client 8080) w0 =
     (Inl (Exception ''Port 8080 not available''),
      \<lparr>events = [SocketCreate 0, Connect 0 (PStr ''127.0.0.1'') (PInt 8080) True], next_sock = 1\<rparr>)"
  using start_port_unavailable [OF demo_init [of PNone PNone] demo_tcp(1) demo_tcp(2) _ _ demo_net_8080,
      where w = w0]
  by (simp add: w0_def show_int_def)

section \<open>Connections\<close>

text \<open>
  C7.  Against a server that refuses every connection, each of \<^verbatim>\<open>ping\<close>,
  \<^verbatim>\<open>kill\<close> and \<^verbatim>\<open>call\<close> makes exactly ten attempts, each on a socket of its own,
  sleeps one second after each attempt but the last, and raises the error of the
  tenth attempt; nothing is written or read.  The retry policy is that of the
  \<^verbatim>\<open>retry\<close> decorator as the specification describes it, with the numbers of
  the source (\<^verbatim>\<open>tries=10, delay=1\<close>).
\<close>

theorem connection_retry_exhausted:
  assumes "getitem2 (optimizer_details_from_yml c) ''tcp'' ''ip'' = Inr (PStr h)"
    and "getitem2 (optimizer_details_from_yml c) ''tcp'' ''port'' = Inr (PInt n)"
    and "0 \<le> n" "n \<le> 65535"
    and "\<And>sid. net env sid h n = Errno (err sid)"
    and "run_message env p g y pen = Inr msg"
  shows "ping env c w =
     (Inl (OSError (err (next_sock w + 9))),
      w\<lparr>events := events w @
          concat (map (\<lambda>i. [SocketCreate (next_sock w + i),
                             Connect (next_sock w + i) (PStr h) (PInt n) False]
                            @ (if i < 9 then [Sleep 1] else [])) [0..<10]),
        next_sock := next_sock w + 10\<rparr>)
    \<and> kill env c w =
     (Inl (OSError (err (next_sock w + 9))),
      w\<lparr>events := events w @ [Log Info ''Killing server'' []] @
          concat (map (\<lambda>i. [SocketCreate (next_sock w + i),
                             Connect (next_sock w + i) (PStr h) (PInt n) False]
                            @ (if i < 9 then [Sleep 1] else [])) [0..<10]),
        next_sock := next_sock w + 10\<rparr>)
    \<and> call env c p g y pen bl mds w =
     (Inl (OSError (err (next_sock w + 9))),
      w\<lparr>events := events w @ [Log Debug ''Sending request to TCP/IP server'' []] @
          concat (map (\<lambda>i. [SocketCreate (next_sock w + i),
                             Connect (next_sock w + i) (PStr h) (PInt n) False]
                            @ (if i < 9 then [Sleep 1] else [])) [0..<10]),
        next_sock := next_sock w + 10\<rparr>)"
  using assms(6)
  by (simp add: ping_def kill_def call_def send_receive_data_def send_receive_bytes_def
      obtain_socket_connection_unreachable [OF assms(1-5)] io_defs)

text \<open>The theorem at port 9 of the concrete environment, where nothing listens.\<close>

theorem connection_retry_exhausted_witness:
  "ping demo_env (demo_client 9) w0 =
     (Inl (OSError 111),
      \<lparr>events = concat (map (\<lambda>i. [SocketCreate i, Connect i (PStr ''127.0.0.1'') (PInt 9) False]
                                   @ (if i < 9 then [Sleep 1] else [])) [0..<10]),
       next_sock = 10\<rparr>)
   \<and> kill demo_env (demo_client 9) w0 =
     (Inl (OSError 111),
      \<lparr>events = Log Info ''Killing server'' [] #
                 concat (map (\<lambda>i. [SocketCreate i, Connect i (PStr ''127.0.0.1'') (PInt 9) False]
                                   @ (if i < 9 then [Sleep 1] else [])) [0..<10]),
       next_sock = 10\<rparr>)
   \<and> call demo_env (demo_client 9) [Finite 1, PosInf] (Some [Finite 2]) None (Some (Finite 5))
        4096 1048576 w0 =
     (Inl (OSError 111),
      \<lparr>events = Log Debug ''Sending request to TCP/IP server'' [] #
                 concat (map (\<lambda>i. [SocketCreate i, Connect i (PStr ''127.0.0.1'') (PInt 9) False]
                                   @ (if i < 9 then [Sleep 1] else [])) [0..<10]),
       next_sock = 10\<rparr>)"
  using connection_retry_exhausted [OF demo_tcp(1) demo_tcp(2) _ _ demo_net_closed demo_run_message,
      where w = w0 and bl = 4096 and mds = 1048576]
  by (simp add: w0_def)



section \<open>Replies that cannot be decoded\<close>

text \<open>
  C9.  When the bytes received in a transaction cannot be decoded (they are not
  text, or the text is not one well-formed document, as after a read that was cut
  short), \<^verbatim>\<open>ping\<close> and \<^verbatim>\<open>call\<close> raise the error of the failing decoding step,
  \<^verbatim>\<open>UnicodeDecodeError\<close> from \<^verbatim>\<open>data.decode()\<close> or \<^verbatim>\<open>JSONDecodeError\<close> from
  \<^verbatim>\<open>json.loads\<close> (the specification's protocol error), and return no response.
  The only decoding step of \<^verbatim>\<open>kill\<close>, which returns no response in any case, is
  \<^verbatim>\<open>data.decode()\<close>, and \<^verbatim>\<open>kill\<close> raises when that step fails.
\<close>

theorem undecodable_response_raises:
  \<open>(send_receive_bytes env c ''{"Ping":1}'' 512 1048576 w = (Inr data, w')
      \<and> (bytes_decode env data = None \<or> (\<exists>u. bytes_decode env data = Some u \<and> json_loads env u = None))
     \<longrightarrow> ping env c w
           = (Inl (if bytes_decode env data = None then UnicodeDecodeError else JSONDecodeError), w'))
   \<and> (run_message env p g y pen = Inr msg
      \<and> send_receive_bytes env c msg bl mds
           (w\<lparr>events := events w @ [Log Debug ''Sending request to TCP/IP server'' []]\<rparr>) = (Inr data, w')
      \<and> (bytes_decode env data = None \<or> (\<exists>u. bytes_decode env data = Some u \<and> json_loads env u = None))
     \<longrightarrow> call env c p g y pen bl mds w
           = (Inl (if bytes_decode env data = None then UnicodeDecodeError else JSONDecodeError), w'))
   \<and> (send_receive_bytes env c ''{"Kill":1}'' 512 1048576
           (w\<lparr>events := events w @ [Log Info ''Killing server'' []]\<rparr>) = (Inr data, w')
      \<and> bytes_decode env data = None
     \<longrightarrow> kill env c w = (Inl UnicodeDecodeError, w'))\<close>
  using ping_undecodable [of env c w data w'] call_undecodable [of env p g y pen msg c bl mds w data w']
  by (auto simp: kill_def send_receive_data_def io_defs)

text \<open>
  The theorem at the server whose reply is cut short (for \<^verbatim>\<open>ping\<close> and
  \<^verbatim>\<open>call\<close>) and at the server whose reply is not text (for \<^verbatim>\<open>kill\<close>).
\<close>

theorem undecodable_response_raises_witness:
  \<open>ping demo_env (demo_client 8081) w0 =
     (Inl JSONDecodeError,
      \<lparr>events = [SocketCreate 0, Connect 0 (PStr ''127.0.0.1'') (PInt 8081) True,
                 SendAll 0 ''{"Ping":1}'', ShutdownWR 0, Recv 0 512 ''{"Pon'']
                @ replicate 2047 (Recv 0 512 []) @ [Close 0],
       next_sock = 1\<rparr>)
   \<and> call demo_env (demo_client 8081) [Finite 1, PosInf] (Some [Finite 2]) None (Some (Finite 5))
       4096 1048576 w0 =
     (Inl JSONDecodeError,
      \<lparr>events = [Log Debug ''Sending request to TCP/IP server'' [],
                 SocketCreate 0, Connect 0 (PStr ''127.0.0.1'') (PInt 8081) True,
                 SendAll 0 ''{"Run" : {"parameter": [1.0,inf], "initial_guess": [2.0], "initial_penalty": 5.0}}'',
                 ShutdownWR 0, Recv 0 4096 ''{"Pon'']
                @ replicate 255 (Recv 0 4096 []) @ [Close 0],
       next_sock = 1\<rparr>)
   \<and> kill demo_env (demo_client 8082) w0 =
     (Inl UnicodeDecodeError,
      \<lparr>events = [Log Info ''Killing server'' [],
                 SocketCreate 0, Connect 0 (PStr ''127.0.0.1'') (PInt 8082) True,
                 SendAll 0 ''{"Kill":1}'', ShutdownWR 0, Recv 0 512 [CHR 0xFF]]
                @ replicate 2047 (Recv 0 512 []) @ [Close 0],
       next_sock = 1\<rparr>)\<close>
proof -
  have cut: \<open>bytes_decode demo_env ''{"Pon'' = None
      \<or> (\<exists>u. bytes_decode demo_env ''{"Pon'' = Some u \<and> json_loads demo_env u = None)\<close>
    by (simp add: demo_env_simps demo_decode_def demo_loads_def)
  have garbled: "bytes_decode demo_env [CHR 0xFF] = None"
    by (simp add: demo_env_simps demo_decode_def)
  note raises = undecodable_response_raises [where env = demo_env and w = w0
      and p = "[Finite 1, PosInf]" and g = "Some [Finite 2]" and y = None and pen = "Some (Finite 5)"
      and bl = 4096 and mds = 1048576]
  from raises [where c = "demo_client 8081", THEN conjunct1, rule_format,
      OF conjI [OF demo_bytes_ping_cut cut]]
    raises [where c = "demo_client 8081", THEN conjunct2, THEN conjunct1, rule_format,
      OF conjI [OF demo_run_message conjI [OF demo_bytes_call_cut cut]]]
    raises [where c = "demo_client 8082", THEN conjunct2, THEN conjunct2, rule_format,
      OF conjI [OF demo_bytes_kill_garbled garbled]]
  show ?thesis by (simp add: demo_env_simps demo_decode_def)
qed

end
